theory Spec2Isabelle
  imports Main "HOL-Library.Sublist"
begin

section \<open>JavaScript values\<close>

text \<open>
  The selectors of \<open>client/state/themes/selectors.js\<close> read a state tree and return
  JavaScript values. A value that may be absent is either \<open>undefined\<close>, \<open>null\<close> or
  a defined value; the two absent values are kept apart because \<open>===\<close> tells them apart.
  Strings are lists of characters: theme ids, site slugs and URL paths are ASCII.
\<close>

datatype 'a nullable = Undefined | Null | Def 'a

type_synonym js_string = "string nullable"

text \<open>Truthiness of a string-or-absent value: absent values and the empty string are falsy.\<close>

fun truthy_str :: "js_string \<Rightarrow> bool" where
  "truthy_str (Def s) = (s \<noteq> [])"
| "truthy_str _ = False"

text \<open>Truthiness of an object-or-absent value: every object is truthy.\<close>

fun truthy_obj :: "'a nullable \<Rightarrow> bool" where
  "truthy_obj (Def _) = True"
| "truthy_obj _ = False"

text \<open>String conversion as done by \<open>+\<close> with a string and by template literals.\<close>

fun to_string :: "js_string \<Rightarrow> string" where
  "to_string Undefined = ''undefined''"
| "to_string Null = ''null''"
| "to_string (Def s) = s"

text \<open>
  \<open>String.prototype.replace\<close> with a string pattern: the first occurrence of the pattern
  is replaced, everything else is kept. The replacement is taken literally, which is what
  JavaScript does for a replacement without \<open>$\<close>.
\<close>

fun replace :: "string \<Rightarrow> string \<Rightarrow> string \<Rightarrow> string" where
  "replace [] pat rep = (if pat = [] then rep else [])"
| "replace (c # cs) pat rep =
     (if prefix pat (c # cs) then rep @ drop (length pat) (c # cs)
      else c # replace cs pat rep)"

text \<open>lodash \<open>includes\<close> on a string-or-absent collection and a one-character needle.\<close>

fun includes_str :: "js_string \<Rightarrow> char \<Rightarrow> bool" where
  "includes_str (Def s) c = (c \<in> set s)"
| "includes_str _ c = False"

text \<open>lodash \<open>find\<close>: the first element the predicate accepts, \<open>undefined\<close> (here \<open>None\<close>) if none.\<close>

fun find_js :: "('a \<Rightarrow> bool) \<Rightarrow> 'a list \<Rightarrow> 'a option" where
  "find_js p [] = None"
| "find_js p (x # xs) = (if p x then Some x else find_js p xs)"

text \<open>lodash \<open>some\<close> with a predicate.\<close>

fun some :: "'a list \<Rightarrow> ('a \<Rightarrow> bool) \<Rightarrow> bool" where
  "some [] p = False"
| "some (x # xs) p = (if p x then True else some xs p)"

text \<open>
  lodash \<open>uniq\<close>: walks the array once and keeps an element when it is not yet among the
  kept ones, so the first occurrence of each element survives, in order.
\<close>

fun baseUniq :: "'a list \<Rightarrow> 'a list \<Rightarrow> 'a list" where
  "baseUniq result [] = result"
| "baseUniq result (x # xs) =
     (if x \<in> set result then baseUniq result xs else baseUniq (result @ [x]) xs)"

definition uniq :: "'a list \<Rightarrow> 'a list" where
  "uniq xs = baseUniq [] xs"







section \<open>The state tree\<close>

text \<open>
  A source of theme records: the WordPress.com directory, the WordPress.org directory, or a
  site. These are the keys under which the reducers file their per-site data
  (\<open>'wpcom'\<close>, \<open>'wporg'\<close>, a numeric site id). A \<open>siteId\<close> argument is a source or
  absent (\<open>None\<close>: \<open>undefined\<close> or \<open>null\<close>); an absent id is no key of any per-site map.
\<close>

datatype source = Wpcom | Wporg | Site nat

type_synonym site_id = "source option"

text \<open>Truthiness of a \<open>siteId\<close>: absent ids and the number 0 are falsy, strings are truthy.\<close>

fun truthy_site :: "site_id \<Rightarrow> bool" where
  "truthy_site None = False"
| "truthy_site (Some (Site n)) = (n \<noteq> 0)"
| "truthy_site (Some _) = True"

text \<open>Reading \<open>obj[siteId]\<close> from a per-site map.\<close>

fun at_site :: "(source \<rightharpoonup> 'a) \<Rightarrow> site_id \<Rightarrow> 'a option" where
  "at_site m None = None"
| "at_site m (Some s) = m s"

text \<open>
  Theme objects live on the heap; the state tree and the query managers hold references to
  them, and \<open>===\<close> (hence \<open>uniq\<close>) compares references.
\<close>

type_synonym theme_ref = nat

record theme =
  theme_id :: js_string
  stylesheet :: js_string
  price :: js_string
  demo_uri :: js_string
  template :: js_string
  download :: js_string

record query =
  search :: js_string
  filter_q :: js_string
  tier :: js_string
  page :: "nat option"

text \<open>
  A \<open>ThemeQueryManager\<close> (\<open>lib/query-manager\<close>) is a collaborator of the selectors; it is
  taken by the methods the selectors call. \<open>getItem\<close> yields a theme or \<open>undefined\<close>;
  \<open>getItems\<close> yields \<open>null\<close> or an array whose entries may be \<open>undefined\<close>; \<open>getFound\<close>
  yields a number or \<open>null\<close>; \<open>getNumberOfPages\<close> yields a number or \<open>null\<close> (\<open>None\<close>);
  \<open>getItemsIgnoringPage\<close> yields \<open>null\<close> or an array of themes.
\<close>

record manager =
  getItem :: "js_string \<Rightarrow> theme_ref nullable"
  getItems :: "query \<Rightarrow> theme_ref nullable list nullable"
  getFound :: "query \<Rightarrow> nat nullable"
  getNumberOfPages :: "query \<Rightarrow> nat option"
  getItemsIgnoringPage :: "query \<Rightarrow> theme_ref list nullable"

record purchase =
  productSlug :: js_string
  meta :: js_string

text \<open>The pending auto-loading-homepage confirmation: a single slot.\<close>

record homepage_warning =
  w_themeId :: js_string
  w_show :: bool
  w_accepted :: bool

datatype request_error = RequestError string

record recommended =
  recommended_themes :: "theme_ref list option"
  isLoading :: bool

text \<open>
  The themes subtree. Objects keyed by a site are maps from sources; \<open>queryRequests\<close>, which
  \<open>some\<close> walks through, is the list of its own properties, keyed by serialized query.
\<close>

record themes_state =
  queries :: "source \<rightharpoonup> manager"
  queryRequests :: "(string \<times> bool) list"
  lastQuery :: "source \<rightharpoonup> query"
  activeThemes :: "source \<rightharpoonup> string"
  themeRequests :: "source \<rightharpoonup> (string \<rightharpoonup> bool)"
  themeRequestErrors :: "source \<rightharpoonup> (string \<rightharpoonup> request_error)"
  activeThemeRequests :: "source \<rightharpoonup> bool"
  activationRequests :: "source \<rightharpoonup> bool"
  completedActivationRequests :: "source \<rightharpoonup> bool"
  themeInstalls :: "source \<rightharpoonup> (string \<rightharpoonup> bool)"
  themePreviewOptions :: "(string \<times> string) list option"
  themePreviewVisibility :: "string option"
  recommendedThemes :: recommended
  themeHasAutoLoadingHomepageWarning :: "homepage_warning option"

text \<open>
  The global state: the themes subtree, the heap of theme objects, and what the sibling
  selectors (\<open>state/sites/selectors\<close>, \<open>state/purchases/selectors\<close>,
  \<open>state/sites/plans/selectors\<close>) report about the other subtrees. The sibling selectors
  are collaborators, taken as given.
\<close>

record state =
  themes :: themes_state
  heap :: "theme_ref \<Rightarrow> theme"
  isJetpackSite :: "site_id \<Rightarrow> bool"
  canJetpackSiteManage :: "site_id \<Rightarrow> bool"
  hasJetpackSiteJetpackThemesExtendedFeatures :: "site_id \<Rightarrow> bool"
  isJetpackSiteMultiSite :: "site_id \<Rightarrow> bool"
  getSiteOption :: "site_id \<Rightarrow> string \<Rightarrow> js_string"
  getSiteSlug :: "site_id \<Rightarrow> js_string"
  getCustomizerUrl :: "site_id \<Rightarrow> js_string"
  getSitePurchases :: "site_id \<Rightarrow> purchase list"
  hasFeature :: "site_id \<Rightarrow> string \<Rightarrow> bool"

text \<open>
  What the module imports besides the state: the feature flags (\<open>config.isEnabled\<close>), the
  helpers of \<open>./utils\<close> (\<open>isPremium\<close>, \<open>oldShowcaseUrl\<close>, the query serializers and
  \<open>getThemeTaxonomySlugs\<close>), the default page of \<open>./constants\<close>, the plan feature
  constant and \<open>i18n.translate\<close>.
\<close>

record env =
  isEnabled :: "string \<Rightarrow> bool"
  isPremium :: "theme nullable \<Rightarrow> bool"
  oldShowcaseUrl :: string
  getSerializedThemesQuery :: "query \<Rightarrow> site_id \<Rightarrow> string"
  getNormalizedThemesQuery :: "query \<Rightarrow> query"
  getDeserializedThemesQueryDetails :: "string \<Rightarrow> site_id \<times> query"
  getThemeTaxonomySlugs :: "theme nullable \<Rightarrow> string \<Rightarrow> string list"
  DEFAULT_THEME_QUERY_page :: nat
  FEATURE_UNLIMITED_PREMIUM_THEMES :: string
  translate :: "string \<Rightarrow> string"

section \<open>Selectors\<close>

text \<open>
  Each selector is the function of the same name in \<open>selectors.js\<close>. A selector wrapped
  in \<open>createSelector\<close> (\<open>getTheme\<close>, \<open>getThemesForQuery\<close>) is the function that is
  memoised there.
\<close>

definition getTheme :: "state \<Rightarrow> site_id \<Rightarrow> js_string \<Rightarrow> theme_ref nullable" where
  "getTheme state siteId themeId =
     (case at_site (queries (themes state)) siteId of
        None \<Rightarrow> Null
      | Some manager \<Rightarrow> getItem manager themeId)"

definition getCanonicalTheme :: "state \<Rightarrow> site_id \<Rightarrow> js_string \<Rightarrow> theme_ref nullable" where
  "getCanonicalTheme state siteId themeId =
     (let source = (case find_js (\<lambda>s. truthy_obj (getTheme state s themeId))
                            [Some Wpcom, Some Wporg, siteId] of
                      None \<Rightarrow> None
                    | Some s \<Rightarrow> s)
      in getTheme state source themeId)"

text \<open>Reading the fields of a theme that may be absent (\<open>get( theme, field )\<close>).\<close>

fun deref :: "state \<Rightarrow> theme_ref nullable \<Rightarrow> theme nullable" where
  "deref state (Def r) = Def (heap state r)"
| "deref state Null = Null"
| "deref state Undefined = Undefined"

text \<open>lodash \<open>get( object, field )\<close>: \<open>undefined\<close> when the object is absent.\<close>

fun get_field :: "theme nullable \<Rightarrow> (theme \<Rightarrow> js_string) \<Rightarrow> js_string" where
  "get_field (Def t) field = field t"
| "get_field _ field = Undefined"


definition getThemesForQuery :: "state \<Rightarrow> site_id \<Rightarrow> query \<Rightarrow> theme_ref nullable list nullable" where
  "getThemesForQuery state siteId query =
     (case at_site (queries (themes state)) siteId of
        None \<Rightarrow> Null
      | Some manager \<Rightarrow>
          (case getItems manager query of
             Def items \<Rightarrow> if Undefined \<in> set items then Null else Def (uniq items)
           | _ \<Rightarrow> Null))"



definition isWpcomTheme :: "state \<Rightarrow> js_string \<Rightarrow> bool" where
  "isWpcomTheme state themeId = truthy_obj (getTheme state (Some Wpcom) themeId)"

definition isWporgTheme :: "state \<Rightarrow> js_string \<Rightarrow> bool" where
  "isWporgTheme state themeId = truthy_obj (getTheme state (Some Wporg) themeId)"

definition isThemePremium :: "env \<Rightarrow> state \<Rightarrow> js_string \<Rightarrow> bool" where
  "isThemePremium e state themeId =
     isPremium e (deref state (getTheme state (Some Wpcom) themeId))"

definition getActiveTheme :: "state \<Rightarrow> site_id \<Rightarrow> js_string" where
  "getActiveTheme state siteId =
     (case at_site (activeThemes (themes state)) siteId of
        None \<Rightarrow> Null
      | Some activeTheme \<Rightarrow>
          if activeTheme = [] then Def activeTheme
          else Def (replace activeTheme ''-wpcom'' []))"

definition isThemeActive :: "state \<Rightarrow> js_string \<Rightarrow> site_id \<Rightarrow> bool" where
  "isThemeActive state themeId siteId = (getActiveTheme state siteId = themeId)"

text \<open>
  \<open>some( sitePurchases, { productSlug: 'premium_theme', meta: themeId } )\<close>: lodash
  accepts a purchase when both properties equal the given values.
\<close>

definition isThemePurchased :: "state \<Rightarrow> js_string \<Rightarrow> site_id \<Rightarrow> bool" where
  "isThemePurchased state themeId siteId =
     some (getSitePurchases state siteId)
       (\<lambda>p. productSlug p = Def ''premium_theme'' \<and> meta p = themeId)"

definition isPremiumThemeAvailable :: "env \<Rightarrow> state \<Rightarrow> js_string \<Rightarrow> site_id \<Rightarrow> bool" where
  "isPremiumThemeAvailable e state themeId siteId =
     (isThemePurchased state themeId siteId \<or>
      hasFeature state siteId (FEATURE_UNLIMITED_PREMIUM_THEMES e))"

definition getPremiumThemePrice :: "env \<Rightarrow> state \<Rightarrow> js_string \<Rightarrow> site_id \<Rightarrow> js_string" where
  "getPremiumThemePrice e state themeId siteId =
     (if \<not> isThemePremium e state themeId \<or> isPremiumThemeAvailable e state themeId siteId
      then Def []
      else if isJetpackSite state siteId then Def (translate e ''Upgrade'')
      else get_field (deref state (getTheme state (Some Wpcom) themeId)) price)"


subsection \<open>URL construction\<close>

text \<open>The optional \<open>/site-slug\<close> part shared by several URLs.\<close>

definition sitePart :: "state \<Rightarrow> site_id \<Rightarrow> string" where
  "sitePart state siteId =
     (if truthy_site siteId then ''/'' @ to_string (getSiteSlug state siteId) else [])"

definition getThemeDetailsUrl :: "env \<Rightarrow> state \<Rightarrow> js_string \<Rightarrow> site_id \<Rightarrow> js_string" where
  "getThemeDetailsUrl e state themeId siteId =
     (if \<not> truthy_str themeId then Null
      else if isJetpackSite state siteId \<and>
              \<not> (isEnabled e ''manage/themes/details/jetpack'' \<and>
                 canJetpackSiteManage state siteId \<and>
                 hasJetpackSiteJetpackThemesExtendedFeatures state siteId)
      then Def (to_string (getSiteOption state siteId ''admin_url'') @
                ''themes.php?theme='' @ to_string themeId)
      else
        let baseUrl = (if isEnabled e ''manage/themes/details''
                       then ''/theme/'' @ to_string themeId
                       else oldShowcaseUrl e @ to_string themeId)
        in Def (baseUrl @ sitePart state siteId))"

definition getThemeSupportUrl :: "env \<Rightarrow> state \<Rightarrow> js_string \<Rightarrow> site_id \<Rightarrow> js_string" where
  "getThemeSupportUrl e state themeId siteId =
     (if \<not> truthy_str themeId \<or> \<not> isThemePremium e state themeId then Null
      else if isEnabled e ''manage/themes/details''
      then Def (''/theme/'' @ to_string themeId @ ''/setup'' @ sitePart state siteId)
      else Def (oldShowcaseUrl e @ sitePart state siteId @ to_string themeId @ ''/support''))"

definition getThemeHelpUrl :: "env \<Rightarrow> state \<Rightarrow> js_string \<Rightarrow> site_id \<Rightarrow> js_string" where
  "getThemeHelpUrl e state themeId siteId =
     (if \<not> truthy_str themeId then Null
      else
        let baseUrl = (if isEnabled e ''manage/themes/details''
                       then ''/theme/'' @ to_string themeId @ ''/support''
                       else oldShowcaseUrl e @ to_string themeId)
        in Def (baseUrl @ sitePart state siteId))"

definition getThemePurchaseUrl :: "env \<Rightarrow> state \<Rightarrow> js_string \<Rightarrow> site_id \<Rightarrow> js_string" where
  "getThemePurchaseUrl e state themeId siteId =
     (if isJetpackSite state siteId \<or> \<not> isThemePremium e state themeId then Null
      else Def (''/checkout/'' @ to_string (getSiteSlug state siteId) @
                ''/theme:'' @ to_string themeId))"

definition getThemeCustomizeUrl :: "state \<Rightarrow> js_string \<Rightarrow> site_id \<Rightarrow> js_string" where
  "getThemeCustomizeUrl state themeId siteId =
     (let customizerUrl = getCustomizerUrl state siteId in
      if \<not> (truthy_site siteId \<and> truthy_str themeId) \<or> isThemeActive state themeId siteId
      then customizerUrl
      else
        let separator = (if includes_str customizerUrl (CHR ''?'') then ''&'' else ''?'') in
        if isJetpackSite state siteId
        then Def (to_string customizerUrl @ separator @ ''theme='' @ to_string themeId)
        else
          (case getTheme state (Some Wpcom) themeId of
             Def r \<Rightarrow> Def (to_string customizerUrl @ separator @ ''theme='' @
                           to_string (stylesheet (heap state r)))
           | _ \<Rightarrow> customizerUrl))"

definition getThemeSignupUrl :: "env \<Rightarrow> state \<Rightarrow> js_string \<Rightarrow> js_string" where
  "getThemeSignupUrl e state themeId =
     (if \<not> truthy_str themeId then Null
      else
        let url = ''/start/with-theme?ref=calypshowcase&theme='' @ to_string themeId
        in if isThemePremium e state themeId then Def (url @ ''&premium=true'') else Def url)"

definition getThemeDemoUrl :: "state \<Rightarrow> js_string \<Rightarrow> site_id \<Rightarrow> js_string" where
  "getThemeDemoUrl state themeId siteId =
     get_field (deref state (getCanonicalTheme state siteId themeId)) demo_uri"

definition getThemeForumUrl :: "env \<Rightarrow> state \<Rightarrow> js_string \<Rightarrow> js_string" where
  "getThemeForumUrl e state themeId =
     (if isThemePremium e state themeId
      then Def (''//premium-themes.forums.wordpress.com/forum/'' @ to_string themeId)
      else if isWpcomTheme state themeId then Def ''//en.forums.wordpress.com/forum/themes''
      else if isWporgTheme state themeId
      then Def (''//wordpress.org/support/theme/'' @ to_string themeId)
      else Null)"

subsection \<open>The auto-loading-homepage gate\<close>

text \<open>\<open>get( state.themes, [ 'themeHasAutoLoadingHomepageWarning', field ] )\<close>.\<close>

definition get_warning :: "state \<Rightarrow> (homepage_warning \<Rightarrow> 'a) \<Rightarrow> 'a nullable" where
  "get_warning state field =
     (case themeHasAutoLoadingHomepageWarning (themes state) of
        None \<Rightarrow> Undefined
      | Some w \<Rightarrow> Def (field w))"

definition getPreActivateThemeId :: "state \<Rightarrow> js_string" where
  "getPreActivateThemeId state =
     (case themeHasAutoLoadingHomepageWarning (themes state) of
        None \<Rightarrow> Undefined
      | Some w \<Rightarrow> w_themeId w)"

text \<open>\<open>a === themeId && b\<close>: \<open>false\<close> when the ids differ, otherwise the value of \<open>b\<close>.\<close>

definition shouldShowHomepageWarning :: "state \<Rightarrow> js_string \<Rightarrow> bool nullable" where
  "shouldShowHomepageWarning state themeId =
     (if getPreActivateThemeId state = themeId then get_warning state w_show else Def False)"

definition hasAutoLoadingHomepageModalAccepted :: "state \<Rightarrow> js_string \<Rightarrow> bool nullable" where
  "hasAutoLoadingHomepageModalAccepted state themeId =
     (if getPreActivateThemeId state = themeId then get_warning state w_accepted else Def False)"

subsection \<open>Requests, queries across pages, installation and the remaining selectors\<close>

text \<open>The object \<open>{}\<close> read as a query, and \<open>omit( query, 'page' )\<close>.\<close>

definition empty_query :: query where
  "empty_query = \<lparr>search = Undefined, filter_q = Undefined, tier = Undefined, page = None\<rparr>"
























section \<open>Errors\<close>













section \<open>The checkout demo: currency formatting\<close>

subsection \<open>JavaScript numbers\<close>









subsection \<open>\<open>Number.prototype.toString\<close>\<close>










subsection \<open>\<open>formatValueForCurrency\<close>\<close>



section \<open>Example data\<close>

text \<open>
  A small state used to run the selectors: two themes in the WordPress.com directory
  (the premium \<open>mood\<close> and the free \<open>twentysixteen\<close>), \<open>twentysixteen\<close> also in the
  WordPress.org directory, a WordPress.com site 5 that bought \<open>mood\<close>, a Jetpack site 7,
  a WordPress.com site 9 on a plan with unlimited premium themes, and a site 12 with both
  the purchase and the plan.
\<close>

definition example_heap :: "theme_ref \<Rightarrow> theme" where
  "example_heap r =
     (if r = 1 then
        \<lparr>theme_id = Def ''mood'', stylesheet = Def ''premium/mood'', price = Def ''$20'',
         demo_uri = Def ''https://mooddemo.wordpress.com/'', template = Undefined,
         download = Undefined\<rparr>
      else if r = 2 then
        \<lparr>theme_id = Def ''twentysixteen'', stylesheet = Def ''pub/twentysixteen'',
         price = Undefined, demo_uri = Def ''https://twentysixteendemo.wordpress.com/'',
         template = Undefined, download = Undefined\<rparr>
      else
        \<lparr>theme_id = Def ''twentysixteen'', stylesheet = Undefined, price = Undefined,
         demo_uri = Def ''https://wp-themes.com/twentysixteen'', template = Undefined,
         download = Undefined\<rparr>)"

definition example_wpcom :: manager where
  "example_wpcom =
     \<lparr>getItem = (\<lambda>themeId. if themeId = Def ''mood'' then Def 1
                           else if themeId = Def ''twentysixteen'' then Def 2 else Undefined),
      getItems = (\<lambda>q. if page q = Some 1 then Def [Def 1, Def 2, Def 1]
                      else if page q = Some 2 then Def [Def 2, Undefined]
                      else Null),
      getFound = (\<lambda>q. Def 2),
      getNumberOfPages = (\<lambda>q. Some 1),
      getItemsIgnoringPage = (\<lambda>q. Def [1, 2, 1])\<rparr>"

definition example_wporg :: manager where
  "example_wporg =
     \<lparr>getItem = (\<lambda>themeId. if themeId = Def ''twentysixteen'' then Def 3 else Undefined),
      getItems = (\<lambda>q. Def [Def 3]),
      getFound = (\<lambda>q. Def 1),
      getNumberOfPages = (\<lambda>q. Some 1),
      getItemsIgnoringPage = (\<lambda>q. Def [3])\<rparr>"

definition example_query :: "nat \<Rightarrow> query" where
  "example_query n = \<lparr>search = Undefined, filter_q = Undefined, tier = Undefined, page = Some n\<rparr>"

definition example_themes :: themes_state where
  "example_themes =
     \<lparr>queries = [Wpcom \<mapsto> example_wpcom, Wporg \<mapsto> example_wporg],
      queryRequests = [],
      lastQuery = Map.empty,
      activeThemes = [Site 5 \<mapsto> ''twentysixteen-wpcom'', Site 7 \<mapsto> ''my-wpcomics-wpcom''],
      themeRequests = [Site 7 \<mapsto> [''mood'' \<mapsto> True]],
      themeRequestErrors = Map.empty,
      activeThemeRequests = Map.empty,
      activationRequests = Map.empty,
      completedActivationRequests = Map.empty,
      themeInstalls = Map.empty,
      themePreviewOptions = None,
      themePreviewVisibility = None,
      recommendedThemes = \<lparr>recommended_themes = None, isLoading = False\<rparr>,
      themeHasAutoLoadingHomepageWarning =
        Some \<lparr>w_themeId = Def ''mood'', w_show = True, w_accepted = False\<rparr>\<rparr>"

definition example_state :: state where
  "example_state =
     \<lparr>themes = example_themes,
      heap = example_heap,
      isJetpackSite = (\<lambda>siteId. siteId = Some (Site 7)),
      canJetpackSiteManage = (\<lambda>siteId. False),
      hasJetpackSiteJetpackThemesExtendedFeatures = (\<lambda>siteId. False),
      isJetpackSiteMultiSite = (\<lambda>siteId. False),
      getSiteOption = (\<lambda>siteId name. if siteId = Some (Site 7) \<and> name = ''admin_url''
                                      then Def ''https://example.org/wp-admin/'' else Null),
      getSiteSlug = (\<lambda>siteId. if siteId = Some (Site 5) then Def ''example.wordpress.com''
                              else if siteId = Some (Site 7) then Def ''example.org''
                              else if siteId = Some (Site 9) then Def ''plan.wordpress.com''
                              else Null),
      getCustomizerUrl = (\<lambda>siteId. if siteId = Some (Site 5)
                                   then Def ''/customize/example.wordpress.com''
                                   else Null),
      getSitePurchases = (\<lambda>siteId. if siteId = Some (Site 5) \<or> siteId = Some (Site 12)
                                   then [\<lparr>productSlug = Def ''value_bundle'', meta = Undefined\<rparr>,
                                         \<lparr>productSlug = Def ''premium_theme'', meta = Def ''mood''\<rparr>]
                                   else []),
      hasFeature = (\<lambda>siteId feature. (siteId = Some (Site 9) \<or> siteId = Some (Site 12)) \<and>
                                      feature = ''unlimited-premium-themes'')\<rparr>"

text \<open>The state after the user has accepted the auto-loading-homepage dialog for \<open>mood\<close>.\<close>

definition example_accepted :: state where
  "example_accepted =
     example_state\<lparr>themes := example_themes\<lparr>themeHasAutoLoadingHomepageWarning :=
        Some \<lparr>w_themeId = Def ''mood'', w_show = False, w_accepted = True\<rparr>\<rparr>\<rparr>"

text \<open>The state before anything has been fetched: no query managers, no requests, no slot.\<close>

definition example_initial :: state where
  "example_initial =
     example_state\<lparr>themes := example_themes\<lparr>queries := Map.empty,
        activeThemes := Map.empty, themeRequests := Map.empty,
        themeHasAutoLoadingHomepageWarning := None\<rparr>\<rparr>"

definition example_env :: env where
  "example_env =
     \<lparr>isEnabled = (\<lambda>flag. flag = ''manage/themes/details''),
      isPremium = (\<lambda>t. case t of
                          Def th \<Rightarrow> (case stylesheet th of
                                       Def s \<Rightarrow> prefix ''premium/'' s
                                     | _ \<Rightarrow> False)
                        | _ \<Rightarrow> False),
      oldShowcaseUrl = ''//wordpress.com/themes/'',
      getSerializedThemesQuery = (\<lambda>q siteId. to_string (search q)),
      getNormalizedThemesQuery = (\<lambda>q. q),
      getDeserializedThemesQueryDetails = (\<lambda>key. (None, empty_query)),
      getThemeTaxonomySlugs = (\<lambda>t taxonomy. []),
      DEFAULT_THEME_QUERY_page = 1,
      FEATURE_UNLIMITED_PREMIUM_THEMES = ''unlimited-premium-themes'',
      translate = (\<lambda>s. s)\<rparr>"

section \<open>Evaluation rules for the example data\<close>

lemmas example_defs =
  example_state_def example_themes_def example_wpcom_def example_wporg_def example_heap_def
  example_env_def example_query_def example_accepted_def example_initial_def

section \<open>Canonical theme resolution\<close>

lemma getTheme_absent_site: "getTheme state None themeId = Null"
  by (simp add: getTheme_def)

text \<open>A source has a theme exactly when it has a query manager whose \<open>getItem\<close> yields an object.\<close>

lemma truthy_obj_getTheme:
  "truthy_obj (getTheme state siteId themeId) \<longleftrightarrow>
     (\<exists>manager r. at_site (queries (themes state)) siteId = Some manager \<and>
                  getItem manager themeId = Def r)"
  by (cases "getTheme state siteId themeId")
     (auto simp: getTheme_def split: option.splits)

lemma getCanonicalTheme_chain:
  "getCanonicalTheme state siteId themeId =
     (if truthy_obj (getTheme state (Some Wpcom) themeId) then getTheme state (Some Wpcom) themeId
      else if truthy_obj (getTheme state (Some Wporg) themeId) then getTheme state (Some Wporg) themeId
      else if truthy_obj (getTheme state siteId themeId) then getTheme state siteId themeId
      else Null)"
  by (simp add: getCanonicalTheme_def getTheme_absent_site)

text \<open>
  Claim C1. \<open>getCanonicalTheme\<close> returns the theme of the first source, in the order
  wpcom, wporg, fallback site, that has the theme id. In particular a theme id present in
  both wpcom and wporg resolves to the wpcom theme, and when no source has the id the
  result is \<open>null\<close>.
\<close>

theorem getCanonicalTheme_priority:
  "getCanonicalTheme state siteId themeId =
     (if truthy_obj (getTheme state (Some Wpcom) themeId) then getTheme state (Some Wpcom) themeId
      else if truthy_obj (getTheme state (Some Wporg) themeId) then getTheme state (Some Wporg) themeId
      else if truthy_obj (getTheme state siteId themeId) then getTheme state siteId themeId
      else Null) \<and>
   (truthy_obj (getTheme state (Some Wpcom) themeId) \<and>
    truthy_obj (getTheme state (Some Wporg) themeId) \<longrightarrow>
      getCanonicalTheme state siteId themeId = getTheme state (Some Wpcom) themeId) \<and>
   (\<not> truthy_obj (getTheme state (Some Wpcom) themeId) \<and>
    \<not> truthy_obj (getTheme state (Some Wporg) themeId) \<and>
    \<not> truthy_obj (getTheme state siteId themeId) \<longrightarrow>
      getCanonicalTheme state siteId themeId = Null)"
  by (simp add: getCanonicalTheme_chain)

theorem getCanonicalTheme_priority_witness:
  "truthy_obj (getTheme example_state (Some Wpcom) (Def ''twentysixteen'')) \<and>
   truthy_obj (getTheme example_state (Some Wporg) (Def ''twentysixteen'')) \<and>
   getTheme example_state (Some Wpcom) (Def ''twentysixteen'') = Def 2 \<and>
   getTheme example_state (Some Wporg) (Def ''twentysixteen'') = Def 3 \<and>
   getCanonicalTheme example_state (Some (Site 5)) (Def ''twentysixteen'') = Def 2 \<and>
   \<not> truthy_obj (getTheme example_state (Some Wpcom) (Def ''nope'')) \<and>
   \<not> truthy_obj (getTheme example_state (Some Wporg) (Def ''nope'')) \<and>
   \<not> truthy_obj (getTheme example_state (Some (Site 5)) (Def ''nope'')) \<and>
   getCanonicalTheme example_state (Some (Site 5)) (Def ''nope'') = Null"
  using getCanonicalTheme_priority [of example_state "Some (Site 5)" "Def ''twentysixteen''"]
        getCanonicalTheme_priority [of example_state "Some (Site 5)" "Def ''nope''"]
  by (simp add: getTheme_def example_defs)

section \<open>Themes for a query\<close>

text \<open>
  \<open>createSelector\<close> caches what \<open>getThemesForQuery\<close> computes per
  \<open>state.themes.queries\<close> and serialized query; the cache is not part of the model.
\<close>

lemma baseUniq_distinct: "distinct result \<Longrightarrow> distinct (baseUniq result xs)"
  by (induction xs arbitrary: result) auto

lemma baseUniq_set: "set (baseUniq result xs) = set result \<union> set xs"
  by (induction xs arbitrary: result) auto

lemma uniq_distinct: "distinct (uniq xs)"
  by (simp add: uniq_def baseUniq_distinct)

lemma uniq_set: "set (uniq xs) = set xs"
  by (simp add: uniq_def baseUniq_set)

text \<open>
  Claim C2. \<open>getThemesForQuery\<close> returns \<open>null\<close> when the site has no query manager,
  when the manager yields no items for the query (\<open>getItems\<close> is \<open>null\<close> or
  \<open>undefined\<close>), and when the items contain an \<open>undefined\<close> entry; otherwise it returns
  an array without duplicates that holds exactly the themes the manager returned.
  Duplicates are equal references, as \<open>uniq\<close> compares them.
\<close>

theorem getThemesForQuery_null_or_duplicate_free:
  "(at_site (queries (themes state)) siteId = None \<longrightarrow>
      getThemesForQuery state siteId query = Null) \<and>
   (\<forall>manager. at_site (queries (themes state)) siteId = Some manager \<longrightarrow>
      (getItems manager query = Null \<or> getItems manager query = Undefined \<longrightarrow>
         getThemesForQuery state siteId query = Null) \<and>
      (\<forall>items. getItems manager query = Def items \<longrightarrow>
         (Undefined \<in> set items \<longrightarrow> getThemesForQuery state siteId query = Null) \<and>
         (Undefined \<notin> set items \<longrightarrow>
            (\<exists>result. getThemesForQuery state siteId query = Def result \<and>
                      distinct result \<and> set result = set items))))"
  by (auto simp: getThemesForQuery_def uniq_distinct uniq_set)

theorem getThemesForQuery_null_or_duplicate_free_witness:
  "at_site (queries (themes example_state)) (Some (Site 5)) = None \<and>
   getThemesForQuery example_state (Some (Site 5)) (example_query 1) = Null \<and>
   at_site (queries (themes example_state)) (Some Wpcom) = Some example_wpcom \<and>
   getItems example_wpcom (example_query 3) = Null \<and>
   getThemesForQuery example_state (Some Wpcom) (example_query 3) = Null \<and>
   getItems example_wpcom (example_query 2) = Def [Def 2, Undefined] \<and>
   getThemesForQuery example_state (Some Wpcom) (example_query 2) = Null \<and>
   getItems example_wpcom (example_query 1) = Def [Def 1, Def 2, Def 1] \<and>
   (\<exists>result. getThemesForQuery example_state (Some Wpcom) (example_query 1) = Def result \<and>
             distinct result \<and> set result = set [Def 1, Def 2, Def 1])"
proof -
  have no_manager: "at_site (queries (themes example_state)) (Some (Site 5)) = None"
    by (simp add: example_defs)
  have wpcom: "at_site (queries (themes example_state)) (Some Wpcom) = Some example_wpcom"
    by (simp add: example_defs)
  have page3: "getItems example_wpcom (example_query 3) = Null"
    by (simp add: example_defs)
  have page2: "getItems example_wpcom (example_query 2) = Def [Def 2, Undefined]"
    by (simp add: example_defs)
  have page1: "getItems example_wpcom (example_query 1) = Def [Def 1, Def 2, Def 1]"
    by (simp add: example_defs)
  have "getThemesForQuery example_state (Some (Site 5)) (example_query 1) = Null"
    using getThemesForQuery_null_or_duplicate_free
            [of example_state "Some (Site 5)" "example_query 1"] no_manager
    by blast
  moreover have "getThemesForQuery example_state (Some Wpcom) (example_query 3) = Null"
    using getThemesForQuery_null_or_duplicate_free
            [of example_state "Some Wpcom" "example_query 3"] wpcom page3
    by blast
  moreover have "getThemesForQuery example_state (Some Wpcom) (example_query 2) = Null"
    using getThemesForQuery_null_or_duplicate_free
            [of example_state "Some Wpcom" "example_query 2"] wpcom page2
    by simp
  moreover have "\<exists>result. getThemesForQuery example_state (Some Wpcom) (example_query 1) = Def result \<and>
             distinct result \<and> set result = set [Def 1, Def 2, Def 1]"
    using getThemesForQuery_null_or_duplicate_free
            [of example_state "Some Wpcom" "example_query 1"] wpcom page1
    by simp
  ultimately show ?thesis
    using no_manager wpcom page1 page2 page3 by blast
qed

text \<open>The first page of the example holds \<open>mood\<close> twice; the second occurrence is dropped.\<close>

lemma getThemesForQuery_example:
  "getThemesForQuery example_state (Some Wpcom) (example_query 1) = Def [Def 1, Def 2]"
  by (simp add: example_defs getThemesForQuery_def uniq_def)

section \<open>Premium themes: purchase, availability, price\<close>

lemma some_iff: "some xs p \<longleftrightarrow> (\<exists>x \<in> set xs. p x)"
  by (induction xs) auto

lemma isThemePurchased_iff:
  "isThemePurchased state themeId siteId \<longleftrightarrow>
     (\<exists>p \<in> set (getSitePurchases state siteId).
        productSlug p = Def ''premium_theme'' \<and> meta p = themeId)"
  by (simp add: isThemePurchased_def some_iff)

text \<open>
  Claim C3. \<open>isPremiumThemeAvailable\<close> is true exactly when the site has a purchase with
  product slug \<open>premium_theme\<close> whose meta is the theme id, or the site has the
  unlimited-premium-themes plan feature; in the remaining case it is false.
\<close>

theorem isPremiumThemeAvailable_iff:
  "isPremiumThemeAvailable e state themeId siteId \<longleftrightarrow>
     (\<exists>p \<in> set (getSitePurchases state siteId).
        productSlug p = Def ''premium_theme'' \<and> meta p = themeId) \<or>
     hasFeature state siteId (FEATURE_UNLIMITED_PREMIUM_THEMES e)"
  by (simp add: isPremiumThemeAvailable_def isThemePurchased_iff)

text \<open>
  The table on the example: purchase and feature (site 12), purchase and no feature
  (site 5), feature and no purchase (site 9), neither (site 7).
\<close>

theorem isPremiumThemeAvailable_iff_witness:
  "isThemePurchased example_state (Def ''mood'') (Some (Site 12)) \<and>
   hasFeature example_state (Some (Site 12)) (FEATURE_UNLIMITED_PREMIUM_THEMES example_env) \<and>
   isPremiumThemeAvailable example_env example_state (Def ''mood'') (Some (Site 12)) \<and>
   isThemePurchased example_state (Def ''mood'') (Some (Site 5)) \<and>
   \<not> hasFeature example_state (Some (Site 5)) (FEATURE_UNLIMITED_PREMIUM_THEMES example_env) \<and>
   isPremiumThemeAvailable example_env example_state (Def ''mood'') (Some (Site 5)) \<and>
   \<not> isThemePurchased example_state (Def ''mood'') (Some (Site 9)) \<and>
   hasFeature example_state (Some (Site 9)) (FEATURE_UNLIMITED_PREMIUM_THEMES example_env) \<and>
   isPremiumThemeAvailable example_env example_state (Def ''mood'') (Some (Site 9)) \<and>
   \<not> isThemePurchased example_state (Def ''mood'') (Some (Site 7)) \<and>
   \<not> hasFeature example_state (Some (Site 7)) (FEATURE_UNLIMITED_PREMIUM_THEMES example_env) \<and>
   \<not> isPremiumThemeAvailable example_env example_state (Def ''mood'') (Some (Site 7)) \<and>
   \<not> isPremiumThemeAvailable example_env example_state (Def ''twentysixteen'') (Some (Site 5))"
  using isPremiumThemeAvailable_iff [of example_env example_state "Def ''mood''" "Some (Site 12)"]
        isPremiumThemeAvailable_iff [of example_env example_state "Def ''mood''" "Some (Site 5)"]
        isPremiumThemeAvailable_iff [of example_env example_state "Def ''mood''" "Some (Site 9)"]
        isPremiumThemeAvailable_iff [of example_env example_state "Def ''mood''" "Some (Site 7)"]
        isPremiumThemeAvailable_iff [of example_env example_state "Def ''twentysixteen''" "Some (Site 5)"]
  by (simp add: isThemePurchased_def example_defs)

lemma example_premium:
  "isThemePremium example_env example_state (Def ''mood'')"
  "\<not> isThemePremium example_env example_state (Def ''twentysixteen'')"
  by (simp_all add: isThemePremium_def getTheme_def example_defs)

lemma example_available:
  "isPremiumThemeAvailable example_env example_state (Def ''mood'') (Some (Site 5))"
  "\<not> isPremiumThemeAvailable example_env example_state (Def ''mood'') (Some (Site 7))"
  "\<not> isPremiumThemeAvailable example_env example_state (Def ''mood'') (Some (Site 11))"
  by (simp_all add: isPremiumThemeAvailable_def isThemePurchased_def example_defs)

text \<open>
  Claim C5. \<open>getPremiumThemePrice\<close> returns the empty string when the theme is not
  premium (whatever the purchases are) or is already available for the site; for a premium
  theme that is not available it returns the translated \<open>Upgrade\<close> label on a Jetpack site
  and otherwise the \<open>price\<close> of the wpcom theme record (\<open>undefined\<close> when there is no such
  record).
\<close>

theorem getPremiumThemePrice_cases:
  "(\<not> isThemePremium e state themeId \<longrightarrow> getPremiumThemePrice e state themeId siteId = Def []) \<and>
   (isPremiumThemeAvailable e state themeId siteId \<longrightarrow>
      getPremiumThemePrice e state themeId siteId = Def []) \<and>
   (isThemePremium e state themeId \<and> \<not> isPremiumThemeAvailable e state themeId siteId \<and>
    isJetpackSite state siteId \<longrightarrow>
      getPremiumThemePrice e state themeId siteId = Def (translate e ''Upgrade'')) \<and>
   (isThemePremium e state themeId \<and> \<not> isPremiumThemeAvailable e state themeId siteId \<and>
    \<not> isJetpackSite state siteId \<longrightarrow>
      (\<forall>r. getTheme state (Some Wpcom) themeId = Def r \<longrightarrow>
         getPremiumThemePrice e state themeId siteId = price (heap state r)) \<and>
      (\<not> truthy_obj (getTheme state (Some Wpcom) themeId) \<longrightarrow>
         getPremiumThemePrice e state themeId siteId = Undefined))"
  by (cases "getTheme state (Some Wpcom) themeId") (simp_all add: getPremiumThemePrice_def)

theorem getPremiumThemePrice_cases_witness:
  "\<not> isThemePremium example_env example_state (Def ''twentysixteen'') \<and>
   getPremiumThemePrice example_env example_state (Def ''twentysixteen'') (Some (Site 5)) = Def [] \<and>
   isPremiumThemeAvailable example_env example_state (Def ''mood'') (Some (Site 5)) \<and>
   getPremiumThemePrice example_env example_state (Def ''mood'') (Some (Site 5)) = Def [] \<and>
   isThemePremium example_env example_state (Def ''mood'') \<and>
   \<not> isPremiumThemeAvailable example_env example_state (Def ''mood'') (Some (Site 7)) \<and>
   isJetpackSite example_state (Some (Site 7)) \<and>
   getPremiumThemePrice example_env example_state (Def ''mood'') (Some (Site 7)) =
     Def (translate example_env ''Upgrade'') \<and>
   \<not> isPremiumThemeAvailable example_env example_state (Def ''mood'') (Some (Site 11)) \<and>
   \<not> isJetpackSite example_state (Some (Site 11)) \<and>
   getTheme example_state (Some Wpcom) (Def ''mood'') = Def 1 \<and>
   getPremiumThemePrice example_env example_state (Def ''mood'') (Some (Site 11)) =
     price (heap example_state 1) \<and>
   price (heap example_state 1) = Def ''$20''"
proof -
  have jp: "isJetpackSite example_state (Some (Site 7))"
           "\<not> isJetpackSite example_state (Some (Site 11))"
    by (simp_all add: example_defs)
  have th: "getTheme example_state (Some Wpcom) (Def ''mood'') = Def 1"
    by (simp add: getTheme_def example_defs)
  have pr: "price (heap example_state 1) = Def ''$20''"
    by (simp add: example_defs)
  show ?thesis
    using getPremiumThemePrice_cases [of example_env example_state "Def ''twentysixteen''" "Some (Site 5)"]
          getPremiumThemePrice_cases [of example_env example_state "Def ''mood''" "Some (Site 5)"]
          getPremiumThemePrice_cases [of example_env example_state "Def ''mood''" "Some (Site 7)"]
          getPremiumThemePrice_cases [of example_env example_state "Def ''mood''" "Some (Site 11)"]
          example_premium example_available jp th pr
    by simp
qed

section \<open>The active theme and the \<open>-wpcom\<close> suffix\<close>

text \<open>Replacing an occurrence of the pattern changes the length by the difference of the two.\<close>

lemma replace_length:
  "\<exists>u v. s = u @ pat @ v \<Longrightarrow>
     length (replace s pat rep) + length pat = length s + length rep"
proof (induction s)
  case Nil
  then show ?case by simp
next
  case (Cons c cs)
  show ?case
  proof (cases "prefix pat (c # cs)")
    case True
    then have "length pat \<le> length (c # cs)"
      by (rule prefix_length_le)
    with True show ?thesis by simp
  next
    case False
    from Cons.prems obtain u v where s: "c # cs = u @ pat @ v" by blast
    with False have "u \<noteq> []"
      by (auto simp: prefix_def)
    with s have "cs = tl u @ pat @ v"
      by (cases u) auto
    then have "length (replace cs pat rep) + length pat = length cs + length rep"
      using Cons.IH by blast
    with False show ?thesis by simp
  qed
qed

text \<open>
  An occurrence of \<open>-wpcom\<close> at the front of \<open>xs @ ''-wpcom''\<close> lies within \<open>xs\<close> unless
  \<open>xs\<close> is empty: the pattern does not overlap itself.
\<close>

lemma wpcom_prefix_of_suffixed:
  "prefix ''-wpcom'' (xs @ ''-wpcom'') \<Longrightarrow> xs = [] \<or> prefix ''-wpcom'' xs"
  by (auto simp: prefix_append Cons_eq_append_conv)

lemma replace_wpcom_suffix:
  "\<not> (\<exists>u v. xs = u @ ''-wpcom'' @ v) \<Longrightarrow> replace (xs @ ''-wpcom'') ''-wpcom'' [] = xs"
proof (induction xs)
  case Nil
  then show ?case by simp
next
  case (Cons c cs)
  have "\<not> prefix ''-wpcom'' (c # cs)"
  proof
    assume "prefix ''-wpcom'' (c # cs)"
    then obtain v where "c # cs = ''-wpcom'' @ v"
      by (auto simp: prefix_def)
    then have "c # cs = [] @ ''-wpcom'' @ v" by simp
    with Cons.prems show False by blast
  qed
  with wpcom_prefix_of_suffixed [of "c # cs"]
  have "\<not> prefix ''-wpcom'' ((c # cs) @ ''-wpcom'')" by blast
  then have np: "prefix ''-wpcom'' (c # (cs @ ''-wpcom'')) = False"
    by (simp only: append_Cons)
  have step: "replace ((c # cs) @ ''-wpcom'') ''-wpcom'' [] =
                c # replace (cs @ ''-wpcom'') ''-wpcom'' []"
    by (simp only: append_Cons replace.simps np if_False)
  have "\<not> (\<exists>u v. cs = u @ ''-wpcom'' @ v)"
  proof
    assume "\<exists>u v. cs = u @ ''-wpcom'' @ v"
    then obtain u v where "cs = u @ ''-wpcom'' @ v" by blast
    then have "c # cs = (c # u) @ ''-wpcom'' @ v" by simp
    with Cons.prems show False by blast
  qed
  then have "replace (cs @ ''-wpcom'') ''-wpcom'' [] = cs"
    by (rule Cons.IH)
  with step show ?case by (simp only:)
qed

text \<open>
  Claim C4, on the input where it fails. The site's stored active theme is
  \<open>my-wpcomics-wpcom\<close>, that is the id \<open>my-wpcomics\<close> with the suffix appended.
  \<open>getActiveTheme\<close> removes the first \<open>-wpcom\<close>, which is the one inside the id, and
  keeps the suffix; \<open>isThemeActive\<close> with the bare id is false.
\<close>

theorem isThemeActive_infix_wpcom_not_stripped:
  "activeThemes (themes example_state) (Site 7) = Some (''my-wpcomics'' @ ''-wpcom'') \<and>
   getActiveTheme example_state (Some (Site 7)) = Def ''myics-wpcom'' \<and>
   isThemeActive example_state (Def ''my-wpcomics'') (Some (Site 7)) = False"
  by (simp add: isThemeActive_def getActiveTheme_def example_defs)

text \<open>
  For an id that does not contain \<open>-wpcom\<close> the suffix is the first occurrence, and the
  bare id is reported active.
\<close>

theorem isThemeActive_suffix_stripped:
  assumes "activeThemes (themes state) site = Some (themeId @ ''-wpcom'')"
      and "\<not> (\<exists>u v. themeId = u @ ''-wpcom'' @ v)"
    shows "isThemeActive state (Def themeId) (Some site)"
  using assms(1) replace_wpcom_suffix [OF assms(2)]
  by (simp add: isThemeActive_def getActiveTheme_def)

theorem isThemeActive_suffix_stripped_witness:
  "activeThemes (themes example_state) (Site 5) = Some (''twentysixteen'' @ ''-wpcom'') \<and>
   \<not> (\<exists>u v. ''twentysixteen'' = u @ ''-wpcom'' @ v) \<and>
   isThemeActive example_state (Def ''twentysixteen'') (Some (Site 5))"
proof -
  have stored: "activeThemes (themes example_state) (Site 5) = Some (''twentysixteen'' @ ''-wpcom'')"
    by (simp add: example_defs)
  have bare: "\<not> (\<exists>u v. ''twentysixteen'' = u @ ''-wpcom'' @ v)"
    by (auto simp: Cons_eq_append_conv)
  from isThemeActive_suffix_stripped [OF stored bare] stored bare
  show ?thesis by blast
qed

text \<open>
  Claim C9. When the stored active theme id of a site contains \<open>-wpcom\<close>,
  \<open>isThemeActive\<close> queried with the stored id itself is false: \<open>getActiveTheme\<close> removes
  the first occurrence of \<open>-wpcom\<close>, so the only id reported active is the stored id
  with that occurrence removed.
\<close>

theorem isThemeActive_stored_id_with_wpcom_false:
  assumes "activeThemes (themes state) site = Some stored"
      and "\<exists>u v. stored = u @ ''-wpcom'' @ v"
    shows "\<not> isThemeActive state (Def stored) (Some site) \<and>
           (isThemeActive state themeId (Some site) \<longleftrightarrow>
              themeId = Def (replace stored ''-wpcom'' []))"
proof -
  from assms(2) have ne: "stored \<noteq> []" by auto
  from replace_length [OF assms(2), of "[]"]
  have "length (replace stored ''-wpcom'' []) \<noteq> length stored" by simp
  then have "replace stored ''-wpcom'' [] \<noteq> stored" by auto
  with assms(1) ne show ?thesis
    by (auto simp: isThemeActive_def getActiveTheme_def)
qed

theorem isThemeActive_stored_id_with_wpcom_false_witness:
  "activeThemes (themes example_state) (Site 5) = Some ''twentysixteen-wpcom'' \<and>
   (\<exists>u v. ''twentysixteen-wpcom'' = u @ ''-wpcom'' @ v) \<and>
   \<not> isThemeActive example_state (Def ''twentysixteen-wpcom'') (Some (Site 5)) \<and>
   isThemeActive example_state (Def ''twentysixteen'') (Some (Site 5))"
proof -
  have stored: "activeThemes (themes example_state) (Site 5) = Some ''twentysixteen-wpcom''"
    by (simp add: example_defs)
  have "''twentysixteen-wpcom'' = ''twentysixteen'' @ ''-wpcom'' @ []"
    by simp
  then have sub: "\<exists>u v. ''twentysixteen-wpcom'' = u @ ''-wpcom'' @ v"
    by blast
  have r: "replace ''twentysixteen-wpcom'' ''-wpcom'' [] = ''twentysixteen''"
    by simp
  show ?thesis
    using isThemeActive_stored_id_with_wpcom_false [OF stored sub, of "Def ''twentysixteen''"]
          stored sub r
    by simp
qed

section \<open>URL construction\<close>

lemma getThemeSupportUrl_premium:
  "truthy_str themeId \<Longrightarrow> isThemePremium e state themeId \<Longrightarrow>
     getThemeSupportUrl e state themeId siteId =
       (if isEnabled e ''manage/themes/details''
        then Def (''/theme/'' @ to_string themeId @ ''/setup'' @ sitePart state siteId)
        else Def (oldShowcaseUrl e @ sitePart state siteId @ to_string themeId @ ''/support''))"
  by (simp add: getThemeSupportUrl_def)

lemma getThemeSupportUrl_Null_iff:
  "getThemeSupportUrl e state themeId siteId = Null \<longleftrightarrow>
     \<not> truthy_str themeId \<or> \<not> isThemePremium e state themeId"
  by (simp add: getThemeSupportUrl_def)

text \<open>
  Claim C10. \<open>getThemeSupportUrl\<close> returns \<open>null\<close> when the theme id is absent and also
  when the theme is not a premium wpcom theme; for a premium theme with an id it returns the
  setup path (or, with the old showcase paths, the support path).
\<close>

theorem getThemeSupportUrl_null_unless_premium:
  "(getThemeSupportUrl e state themeId siteId = Null \<longleftrightarrow>
      \<not> truthy_str themeId \<or> \<not> isThemePremium e state themeId) \<and>
   (truthy_str themeId \<and> isThemePremium e state themeId \<longrightarrow>
      getThemeSupportUrl e state themeId siteId =
        (if isEnabled e ''manage/themes/details''
         then Def (''/theme/'' @ to_string themeId @ ''/setup'' @ sitePart state siteId)
         else Def (oldShowcaseUrl e @ sitePart state siteId @ to_string themeId @ ''/support'')))"
  by (simp add: getThemeSupportUrl_Null_iff getThemeSupportUrl_premium)

theorem getThemeSupportUrl_null_unless_premium_witness:
  "truthy_str (Def ''twentysixteen'') \<and>
   \<not> isThemePremium example_env example_state (Def ''twentysixteen'') \<and>
   getThemeSupportUrl example_env example_state (Def ''twentysixteen'') (Some (Site 5)) = Null \<and>
   \<not> truthy_str Null \<and>
   getThemeSupportUrl example_env example_state Null (Some (Site 5)) = Null \<and>
   truthy_str (Def ''mood'') \<and>
   isThemePremium example_env example_state (Def ''mood'') \<and>
   getThemeSupportUrl example_env example_state (Def ''mood'') (Some (Site 5)) =
     Def ''/theme/mood/setup/example.wordpress.com''"
proof -
  have flag: "isEnabled example_env ''manage/themes/details''"
    by (simp add: example_defs)
  have part: "sitePart example_state (Some (Site 5)) = ''/example.wordpress.com''"
    by (simp add: sitePart_def example_defs)
  show ?thesis
    using getThemeSupportUrl_null_unless_premium
            [of example_env example_state "Def ''twentysixteen''" "Some (Site 5)"]
          getThemeSupportUrl_null_unless_premium
            [of example_env example_state Null "Some (Site 5)"]
          getThemeSupportUrl_null_unless_premium
            [of example_env example_state "Def ''mood''" "Some (Site 5)"]
          example_premium flag part
    by simp
qed

text \<open>The URLs for a theme id that is a non-empty string.\<close>

lemma url_selectors_present:
  "themeId = Def themeName \<Longrightarrow> themeName \<noteq> [] \<Longrightarrow>
      getThemeDetailsUrl e state themeId siteId =
        (if isJetpackSite state siteId \<and>
            \<not> (isEnabled e ''manage/themes/details/jetpack'' \<and>
               canJetpackSiteManage state siteId \<and>
               hasJetpackSiteJetpackThemesExtendedFeatures state siteId)
         then Def (to_string (getSiteOption state siteId ''admin_url'') @
                   ''themes.php?theme='' @ themeName)
         else if isEnabled e ''manage/themes/details''
         then Def (''/theme/'' @ themeName @ sitePart state siteId)
         else Def (oldShowcaseUrl e @ themeName @ sitePart state siteId)) \<and>
      getThemeHelpUrl e state themeId siteId =
        (if isEnabled e ''manage/themes/details''
         then Def (''/theme/'' @ themeName @ ''/support'' @ sitePart state siteId)
         else Def (oldShowcaseUrl e @ themeName @ sitePart state siteId)) \<and>
      getThemeSignupUrl e state themeId =
        Def (''/start/with-theme?ref=calypshowcase&theme='' @ themeName @
             (if isThemePremium e state themeId then ''&premium=true'' else [])) \<and>
      getThemeSupportUrl e state themeId siteId =
        (if \<not> isThemePremium e state themeId then Null
         else if isEnabled e ''manage/themes/details''
         then Def (''/theme/'' @ themeName @ ''/setup'' @ sitePart state siteId)
         else Def (oldShowcaseUrl e @ sitePart state siteId @ themeName @ ''/support'')) \<and>
      (truthy_site siteId \<longrightarrow>
         getThemeCustomizeUrl state themeId siteId =
           (if isThemeActive state themeId siteId then getCustomizerUrl state siteId
            else if isJetpackSite state siteId
            then Def (to_string (getCustomizerUrl state siteId) @
                      (if includes_str (getCustomizerUrl state siteId) (CHR ''?'')
                       then ''&'' else ''?'') @
                      ''theme='' @ themeName)
            else (case getTheme state (Some Wpcom) themeId of
                    Def r \<Rightarrow>
                      Def (to_string (getCustomizerUrl state siteId) @
                           (if includes_str (getCustomizerUrl state siteId) (CHR ''?'')
                            then ''&'' else ''?'') @
                           ''theme='' @ to_string (stylesheet (heap state r)))
                  | _ \<Rightarrow> getCustomizerUrl state siteId)))"
  by (auto simp: getThemeDetailsUrl_def getThemeHelpUrl_def getThemeSignupUrl_def
                 getThemeSupportUrl_def getThemeCustomizeUrl_def Let_def
           split: nullable.splits)

text \<open>The URLs that are paths from the root whatever the site and the theme are.\<close>

lemma url_selectors_rooted:
  "truthy_str themeId \<Longrightarrow>
      (\<exists>rest. getThemeSignupUrl e state themeId = Def (CHR ''/'' # rest)) \<and>
      (getThemePurchaseUrl e state themeId siteId = Null \<or>
       (\<exists>rest. getThemePurchaseUrl e state themeId siteId = Def (CHR ''/'' # rest))) \<and>
      (isEnabled e ''manage/themes/details'' \<longrightarrow>
         (\<exists>rest. getThemeHelpUrl e state themeId siteId = Def (CHR ''/'' # rest)) \<and>
         (getThemeSupportUrl e state themeId siteId = Null \<or>
          (\<exists>rest. getThemeSupportUrl e state themeId siteId = Def (CHR ''/'' # rest))) \<and>
         (isJetpackSite state siteId \<or>
          (\<exists>rest. getThemeDetailsUrl e state themeId siteId = Def (CHR ''/'' # rest))))"
  by (simp add: getThemeSignupUrl_def getThemePurchaseUrl_def getThemeHelpUrl_def
                getThemeSupportUrl_def getThemeDetailsUrl_def Let_def)

text \<open>
  The URL family does not uniformly return \<open>null\<close> for an absent theme id and a string
  otherwise: with a \<open>null\<close> theme id \<open>getThemeCustomizeUrl\<close> returns the site's
  customizer URL, and with the id of a free theme \<open>getThemeSupportUrl\<close> returns \<open>null\<close>.
\<close>

theorem url_selectors_absent_themeId_counterexample:
  "getThemeCustomizeUrl example_state Null (Some (Site 5)) =
     Def ''/customize/example.wordpress.com'' \<and>
   getThemeCustomizeUrl example_state Null (Some (Site 5)) \<noteq> Null \<and>
   getThemeSupportUrl example_env example_state (Def ''twentysixteen'') (Some (Site 5)) = Null"
  by (simp add: getThemeCustomizeUrl_def getThemeSupportUrl_def isThemePremium_def getTheme_def
                example_defs)

text \<open>
  Claim C6, as the code has it. With an absent theme id (\<open>undefined\<close>, \<open>null\<close> or the
  empty string) the details, support, help and signup URLs are \<open>null\<close>, and the customize
  URL is the site's customizer URL unchanged when the site id or the theme id is absent.
  With a theme id every URL is the string its builder composes: the signup URL and the
  purchase URL are paths from the root, and so are the details, help and support URLs under
  the \<open>manage/themes/details\<close> flag, where the details URL of a Jetpack site may instead be
  the site's \<open>admin_url\<close> followed by \<open>themes.php?theme=\<close> and the id; without the flag
  they start with \<open>oldShowcaseUrl\<close>. The support URL is \<open>null\<close> unless the theme is
  premium; the customize URL is the customizer URL (theme active, or not a wpcom theme on a
  site that is not Jetpack) or the customizer URL followed by \<open>?\<close> or \<open>&\<close>, \<open>theme=\<close>
  and the id or stylesheet; the purchase URL is \<open>null\<close> for a Jetpack site or a theme
  that is not premium; the demo URL is the \<open>demo_uri\<close> of the canonical theme, \<open>undefined\<close>
  when there is none; the forum URL is the premium, wpcom or wporg forum, in that order, and
  \<open>null\<close> otherwise. In particular \<open>getThemeDetailsUrl\<close> with a \<open>null\<close> theme id is
  \<open>null\<close> whatever the other arguments are.
\<close>

theorem url_selectors_by_themeId:
  "(\<not> truthy_str themeId \<longrightarrow>
      getThemeDetailsUrl e state themeId siteId = Null \<and>
      getThemeSupportUrl e state themeId siteId = Null \<and>
      getThemeHelpUrl e state themeId siteId = Null \<and>
      getThemeSignupUrl e state themeId = Null) \<and>
   (\<not> (truthy_site siteId \<and> truthy_str themeId) \<longrightarrow>
      getThemeCustomizeUrl state themeId siteId = getCustomizerUrl state siteId) \<and>
   (\<forall>themeName. themeId = Def themeName \<and> themeName \<noteq> [] \<longrightarrow>
      getThemeDetailsUrl e state themeId siteId =
        (if isJetpackSite state siteId \<and>
            \<not> (isEnabled e ''manage/themes/details/jetpack'' \<and>
               canJetpackSiteManage state siteId \<and>
               hasJetpackSiteJetpackThemesExtendedFeatures state siteId)
         then Def (to_string (getSiteOption state siteId ''admin_url'') @
                   ''themes.php?theme='' @ themeName)
         else if isEnabled e ''manage/themes/details''
         then Def (''/theme/'' @ themeName @ sitePart state siteId)
         else Def (oldShowcaseUrl e @ themeName @ sitePart state siteId)) \<and>
      getThemeHelpUrl e state themeId siteId =
        (if isEnabled e ''manage/themes/details''
         then Def (''/theme/'' @ themeName @ ''/support'' @ sitePart state siteId)
         else Def (oldShowcaseUrl e @ themeName @ sitePart state siteId)) \<and>
      getThemeSignupUrl e state themeId =
        Def (''/start/with-theme?ref=calypshowcase&theme='' @ themeName @
             (if isThemePremium e state themeId then ''&premium=true'' else [])) \<and>
      getThemeSupportUrl e state themeId siteId =
        (if \<not> isThemePremium e state themeId then Null
         else if isEnabled e ''manage/themes/details''
         then Def (''/theme/'' @ themeName @ ''/setup'' @ sitePart state siteId)
         else Def (oldShowcaseUrl e @ sitePart state siteId @ themeName @ ''/support'')) \<and>
      (truthy_site siteId \<longrightarrow>
         getThemeCustomizeUrl state themeId siteId =
           (if isThemeActive state themeId siteId then getCustomizerUrl state siteId
            else if isJetpackSite state siteId
            then Def (to_string (getCustomizerUrl state siteId) @
                      (if includes_str (getCustomizerUrl state siteId) (CHR ''?'')
                       then ''&'' else ''?'') @
                      ''theme='' @ themeName)
            else (case getTheme state (Some Wpcom) themeId of
                    Def r \<Rightarrow>
                      Def (to_string (getCustomizerUrl state siteId) @
                           (if includes_str (getCustomizerUrl state siteId) (CHR ''?'')
                            then ''&'' else ''?'') @
                           ''theme='' @ to_string (stylesheet (heap state r)))
                  | _ \<Rightarrow> getCustomizerUrl state siteId)))) \<and>
   getThemePurchaseUrl e state themeId siteId =
     (if isJetpackSite state siteId \<or> \<not> isThemePremium e state themeId then Null
      else Def (''/checkout/'' @ to_string (getSiteSlug state siteId) @
                ''/theme:'' @ to_string themeId)) \<and>
   getThemeDemoUrl state themeId siteId =
     (case getCanonicalTheme state siteId themeId of
        Def r \<Rightarrow> demo_uri (heap state r)
      | _ \<Rightarrow> Undefined) \<and>
   getThemeForumUrl e state themeId =
     (if isThemePremium e state themeId
      then Def (''//premium-themes.forums.wordpress.com/forum/'' @ to_string themeId)
      else if isWpcomTheme state themeId then Def ''//en.forums.wordpress.com/forum/themes''
      else if isWporgTheme state themeId
      then Def (''//wordpress.org/support/theme/'' @ to_string themeId)
      else Null) \<and>
   (truthy_str themeId \<longrightarrow>
      (\<exists>rest. getThemeSignupUrl e state themeId = Def (CHR ''/'' # rest)) \<and>
      (getThemePurchaseUrl e state themeId siteId = Null \<or>
       (\<exists>rest. getThemePurchaseUrl e state themeId siteId = Def (CHR ''/'' # rest))) \<and>
      (isEnabled e ''manage/themes/details'' \<longrightarrow>
         (\<exists>rest. getThemeHelpUrl e state themeId siteId = Def (CHR ''/'' # rest)) \<and>
         (getThemeSupportUrl e state themeId siteId = Null \<or>
          (\<exists>rest. getThemeSupportUrl e state themeId siteId = Def (CHR ''/'' # rest))) \<and>
         (isJetpackSite state siteId \<or>
          (\<exists>rest. getThemeDetailsUrl e state themeId siteId = Def (CHR ''/'' # rest))))) \<and>
   getThemeDetailsUrl e state Null siteId = Null"
proof -
  have u_absent: "\<not> truthy_str themeId \<Longrightarrow>
                    getThemeDetailsUrl e state themeId siteId = Null \<and>
                    getThemeSupportUrl e state themeId siteId = Null \<and>
                    getThemeHelpUrl e state themeId siteId = Null \<and>
                    getThemeSignupUrl e state themeId = Null"
    by (simp add: getThemeDetailsUrl_def getThemeSupportUrl_def getThemeHelpUrl_def
                  getThemeSignupUrl_def)
  have u_customize_absent:
    "\<not> (truthy_site siteId \<and> truthy_str themeId) \<Longrightarrow>
       getThemeCustomizeUrl state themeId siteId = getCustomizerUrl state siteId"
    by (simp add: getThemeCustomizeUrl_def Let_def)
  have u_purchase: "getThemePurchaseUrl e state themeId siteId =
     (if isJetpackSite state siteId \<or> \<not> isThemePremium e state themeId then Null
      else Def (''/checkout/'' @ to_string (getSiteSlug state siteId) @
                ''/theme:'' @ to_string themeId))"
    by (simp add: getThemePurchaseUrl_def)
  have u_demo: "getThemeDemoUrl state themeId siteId =
     (case getCanonicalTheme state siteId themeId of
        Def r \<Rightarrow> demo_uri (heap state r)
      | _ \<Rightarrow> Undefined)"
    by (simp add: getThemeDemoUrl_def split: nullable.splits)
  have u_forum: "getThemeForumUrl e state themeId =
     (if isThemePremium e state themeId
      then Def (''//premium-themes.forums.wordpress.com/forum/'' @ to_string themeId)
      else if isWpcomTheme state themeId then Def ''//en.forums.wordpress.com/forum/themes''
      else if isWporgTheme state themeId
      then Def (''//wordpress.org/support/theme/'' @ to_string themeId)
      else Null)"
    by (simp add: getThemeForumUrl_def)
  have u_null: "getThemeDetailsUrl e state Null siteId = Null"
    by (simp add: getThemeDetailsUrl_def)
  show ?thesis
    using u_absent u_customize_absent url_selectors_present [of themeId _ e state siteId]
          u_purchase u_demo u_forum url_selectors_rooted [of themeId e state siteId] u_null
    by blast
qed

theorem url_selectors_by_themeId_witness:
  "truthy_site (Some (Site 5)) \<and>
   isEnabled example_env ''manage/themes/details'' \<and>
   \<not> truthy_str Null \<and>
   getThemeDetailsUrl example_env example_state Null (Some (Site 5)) = Null \<and>
   getThemeSupportUrl example_env example_state Null (Some (Site 5)) = Null \<and>
   getThemeHelpUrl example_env example_state Null (Some (Site 5)) = Null \<and>
   getThemeSignupUrl example_env example_state Null = Null \<and>
   getThemeCustomizeUrl example_state Null (Some (Site 5)) =
     getCustomizerUrl example_state (Some (Site 5)) \<and>
   truthy_str (Def ''mood'') \<and>
   getThemeDetailsUrl example_env example_state (Def ''mood'') (Some (Site 5)) =
     Def ''/theme/mood/example.wordpress.com'' \<and>
   getThemeDetailsUrl example_env example_state (Def ''mood'') (Some (Site 7)) =
     Def ''https://example.org/wp-admin/themes.php?theme=mood'' \<and>
   getThemeHelpUrl example_env example_state (Def ''mood'') (Some (Site 5)) =
     Def ''/theme/mood/support/example.wordpress.com'' \<and>
   getThemeSignupUrl example_env example_state (Def ''mood'') =
     Def ''/start/with-theme?ref=calypshowcase&theme=mood&premium=true'' \<and>
   getThemeSupportUrl example_env example_state (Def ''mood'') None = Def ''/theme/mood/setup'' \<and>
   getThemeCustomizeUrl example_state (Def ''mood'') (Some (Site 5)) =
     Def ''/customize/example.wordpress.com?theme=premium/mood'' \<and>
   getThemePurchaseUrl example_env example_state (Def ''mood'') (Some (Site 5)) =
     Def ''/checkout/example.wordpress.com/theme:mood'' \<and>
   getThemePurchaseUrl example_env example_state (Def ''mood'') (Some (Site 7)) = Null \<and>
   getThemeDemoUrl example_state (Def ''twentysixteen'') None =
     Def ''https://twentysixteendemo.wordpress.com/'' \<and>
   getThemeDemoUrl example_state (Def ''nope'') None = Undefined \<and>
   getThemeForumUrl example_env example_state (Def ''mood'') =
     Def ''//premium-themes.forums.wordpress.com/forum/mood'' \<and>
   getThemeForumUrl example_env example_state (Def ''nope'') = Null"
  using url_selectors_by_themeId [of Null example_env example_state "Some (Site 5)"]
        url_selectors_by_themeId [of "Def ''mood''" example_env example_state "Some (Site 5)"]
  by (simp add: getThemeDetailsUrl_def getThemeHelpUrl_def getThemeSignupUrl_def
                getThemeSupportUrl_def getThemeCustomizeUrl_def getThemePurchaseUrl_def
                getThemeDemoUrl_def getThemeForumUrl_def isWpcomTheme_def isWporgTheme_def
                isThemePremium_def isThemeActive_def getActiveTheme_def sitePart_def
                getCanonicalTheme_chain getTheme_def example_defs)

section \<open>The auto-loading-homepage gate\<close>

text \<open>
  Claim C7. \<open>shouldShowHomepageWarning\<close> is \<open>true\<close> only when the stored pending theme
  id equals the queried id and the \<open>show\<close> flag is set, \<open>hasAutoLoadingHomepageModalAccepted\<close>
  only when the stored id equals the queried id and the \<open>accepted\<close> flag is set; for a
  theme id other than the stored one both are \<open>false\<close>.
\<close>

theorem homepage_warning_gate:
  "(shouldShowHomepageWarning state themeId = Def True \<longleftrightarrow>
      (\<exists>w. themeHasAutoLoadingHomepageWarning (themes state) = Some w \<and>
           w_themeId w = themeId \<and> w_show w)) \<and>
   (hasAutoLoadingHomepageModalAccepted state themeId = Def True \<longleftrightarrow>
      (\<exists>w. themeHasAutoLoadingHomepageWarning (themes state) = Some w \<and>
           w_themeId w = themeId \<and> w_accepted w)) \<and>
   (getPreActivateThemeId state \<noteq> themeId \<longrightarrow>
      shouldShowHomepageWarning state themeId = Def False \<and>
      hasAutoLoadingHomepageModalAccepted state themeId = Def False)"
  by (auto simp: shouldShowHomepageWarning_def hasAutoLoadingHomepageModalAccepted_def
                 getPreActivateThemeId_def get_warning_def split: option.splits)

theorem homepage_warning_gate_witness:
  "getPreActivateThemeId example_state = Def ''mood'' \<and>
   shouldShowHomepageWarning example_state (Def ''mood'') = Def True \<and>
   hasAutoLoadingHomepageModalAccepted example_state (Def ''mood'') \<noteq> Def True \<and>
   hasAutoLoadingHomepageModalAccepted example_accepted (Def ''mood'') = Def True \<and>
   getPreActivateThemeId example_state \<noteq> Def ''twentysixteen'' \<and>
   shouldShowHomepageWarning example_state (Def ''twentysixteen'') = Def False \<and>
   hasAutoLoadingHomepageModalAccepted example_state (Def ''twentysixteen'') = Def False"
proof -
  have slot: "themeHasAutoLoadingHomepageWarning (themes example_state) =
                Some \<lparr>w_themeId = Def ''mood'', w_show = True, w_accepted = False\<rparr>"
    by (simp add: example_defs)
  have slot': "themeHasAutoLoadingHomepageWarning (themes example_accepted) =
                Some \<lparr>w_themeId = Def ''mood'', w_show = False, w_accepted = True\<rparr>"
    by (simp add: example_defs)
  have pending: "getPreActivateThemeId example_state = Def ''mood''"
    by (simp add: getPreActivateThemeId_def slot)
  show ?thesis
    using homepage_warning_gate [of example_state "Def ''mood''"]
          homepage_warning_gate [of example_accepted "Def ''mood''"]
          homepage_warning_gate [of example_state "Def ''twentysixteen''"]
          slot slot' pending
    by simp
qed

section \<open>The only throw, and what is not found\<close>















subsection \<open>Running \<open>formatValueForCurrency\<close>\<close>















end
